theory Spec2Isabelle
  imports Complex_Main "HOL-Library.Product_Lexorder"
begin

section \<open>Panels (optimized\_nesting\_hybrid.py, optimized\_nesting\_v2.py)\<close>

text \<open>
  Python floats are modelled as exact reals.  The blade thickness \<open>kerf\<close> is a
  module-level input of the scripts; every function that reads it takes it as its
  first argument.

  \<open>Panel.get_placed_width\<close> and \<open>Panel.get_placed_height\<close> memoise \<open>w + kerf\<close> and
  \<open>h + kerf\<close>; \<open>rotate\<close> clears both caches and nothing else writes \<open>w\<close>, \<open>h\<close> or
  \<open>kerf\<close>, so a cached value is always the value that would be recomputed.  The
  model therefore recomputes and carries no cache fields.
\<close>

record panel =
  p_orig_w :: real
  p_orig_h :: real
  p_w :: real
  p_h :: real
  p_area :: real
  p_rotated :: bool
  p_id :: int
  p_tag :: "string option"

definition Panel_init :: "real \<Rightarrow> real \<Rightarrow> int \<Rightarrow> string option \<Rightarrow> panel" where
  "Panel_init w h i t =
     \<lparr>p_orig_w = w, p_orig_h = h, p_w = w, p_h = h, p_area = w * h,
      p_rotated = False, p_id = i, p_tag = t\<rparr>"

definition rotate :: "panel \<Rightarrow> panel" where
  "rotate p = p\<lparr>p_w := p_h p, p_h := p_w p, p_rotated := \<not> p_rotated p\<rparr>"

definition get_placed_width :: "real \<Rightarrow> panel \<Rightarrow> real" where
  "get_placed_width kerf p = p_w p + kerf"

definition get_placed_height :: "real \<Rightarrow> panel \<Rightarrow> real" where
  "get_placed_height kerf p = p_h p + kerf"


section \<open>Shape-bearing panels (optimized\_nesting\_planar.py)\<close>

text \<open>
  A \<open>PlanarPanel\<close> is built from a Rhino surface.  The geometry kernel is not part of
  the repository: what it returns at construction (the boundary polyline's points,
  the bounding box and the area) are arguments of \<open>PlanarPanel_init\<close>.  The one kernel
  operation used afterwards is the rotation by 90 degrees about the origin, taken
  as the exact map \<open>(x, y) \<mapsto> (- y, x)\<close>.
\<close>

type_synonym point = "real \<times> real"

record planar_panel =
  pp_id :: int
  pp_tag :: "string option"
  pp_boundary_points :: "point list"
  pp_bbox_min :: point
  pp_bbox_max :: point
  pp_w :: real
  pp_h :: real
  pp_area :: real
  pp_rotation_angle :: int
  pp_rotated :: bool

definition PlanarPanel_init ::
  "point list \<Rightarrow> point \<Rightarrow> point \<Rightarrow> real \<Rightarrow> int \<Rightarrow> string option \<Rightarrow> planar_panel" where
  "PlanarPanel_init pts bmin bmax a i t =
     \<lparr>pp_id = i, pp_tag = t, pp_boundary_points = pts,
      pp_bbox_min = bmin, pp_bbox_max = bmax,
      pp_w = fst bmax - fst bmin, pp_h = snd bmax - snd bmin,
      pp_area = a, pp_rotation_angle = 0, pp_rotated = False\<rparr>"

definition rot90 :: "point \<Rightarrow> point" where
  "rot90 pt = (- snd pt, fst pt)"

definition pp_rotate :: "planar_panel \<Rightarrow> planar_panel" where
  "pp_rotate p =
     (let angle = (pp_rotation_angle p + 90) mod 360
      in p\<lparr>pp_rotation_angle := angle,
            pp_rotated := (angle \<noteq> 0),
            pp_w := pp_h p, pp_h := pp_w p,
            pp_boundary_points := map rot90 (pp_boundary_points p),
            pp_bbox_min := (- snd (pp_bbox_max p), fst (pp_bbox_min p)),
            pp_bbox_max := (- snd (pp_bbox_min p), fst (pp_bbox_max p))\<rparr>)"

definition pp_get_placed_width :: "real \<Rightarrow> planar_panel \<Rightarrow> real" where
  "pp_get_placed_width kerf p = pp_w p + kerf"

definition pp_get_placed_height :: "real \<Rightarrow> planar_panel \<Rightarrow> real" where
  "pp_get_placed_height kerf p = pp_h p + kerf"


section \<open>Free rectangles\<close>

record free_rectangle =
  fr_x :: real
  fr_y :: real
  fr_w :: real
  fr_h :: real

definition FreeRectangle :: "real \<Rightarrow> real \<Rightarrow> real \<Rightarrow> real \<Rightarrow> free_rectangle" where
  "FreeRectangle x y w h = \<lparr>fr_x = x, fr_y = y, fr_w = w, fr_h = h\<rparr>"

definition fr_area :: "free_rectangle \<Rightarrow> real" where
  "fr_area r = fr_w r * fr_h r"

definition intersects :: "free_rectangle \<Rightarrow> free_rectangle \<Rightarrow> bool" where
  "intersects self other =
     (\<not> (fr_x self + fr_w self \<le> fr_x other \<or> fr_x other + fr_w other \<le> fr_x self
        \<or> fr_y self + fr_h self \<le> fr_y other \<or> fr_y other + fr_h other \<le> fr_y self))"

definition contains :: "free_rectangle \<Rightarrow> free_rectangle \<Rightarrow> bool" where
  "contains self other =
     (fr_x other \<ge> fr_x self \<and> fr_y other \<ge> fr_y self
      \<and> fr_x other + fr_w other \<le> fr_x self + fr_w self
      \<and> fr_y other + fr_h other \<le> fr_y self + fr_h self)"

text \<open>
  \<open>Sheet._prune_free_rects\<close>: the outer loop keeps \<open>rect\<close> (index \<open>i\<close>) unless the inner
  loop finds an \<open>other\<close> at an index \<open>j \<noteq> i\<close> with \<open>other.contains(rect)\<close>.
\<close>

definition prune_free_rects :: "free_rectangle list \<Rightarrow> free_rectangle list" where
  "prune_free_rects rects =
     (if length rects \<le> 1 then rects
      else map snd
        (filter (\<lambda>(i, rect). \<not> list_ex (\<lambda>(j, other). i \<noteq> j \<and> contains other rect)
                               (enumerate 0 rects))
           (enumerate 0 rects)))"

section \<open>Skyline\<close>

text \<open>
  A skyline segment is the tuple \<open>(x, y, width)\<close>.  \<open>skyline_loop\<close> is the \<open>for\<close> loop of
  \<open>Sheet._update_skyline\<close>: its state is the mutable \<open>new_segment\<close>, the flag \<open>merged\<close>
  and the list \<open>updated_skyline\<close>.  The x-overlap test reads the arguments \<open>x\<close> and \<open>w\<close>,
  not the merged segment.  The list is then sorted by the key \<open>(s[1], s[0])\<close> (Python's
  sort and \<open>sort_key\<close> are both stable) and cut to its first 100 entries.
\<close>

type_synonym segment = "real \<times> real \<times> real"

fun skyline_loop ::
  "real \<Rightarrow> real \<Rightarrow> segment list \<Rightarrow> segment \<Rightarrow> bool \<Rightarrow> segment list \<Rightarrow> segment list \<times> segment" where
  "skyline_loop x w [] new_segment merged updated = (updated, new_segment)"
| "skyline_loop x w ((seg_x, seg_y, seg_w) # rest) (n0, n1, n2) merged updated =
     (if x < seg_x + seg_w \<and> x + w > seg_x then
        (if \<bar>seg_y - n1\<bar> < 1 / 10 then
           (if \<not> merged then
              (let n0' = min n0 seg_x;
                   n2' = max (n0' + n2) (seg_x + seg_w) - n0'
               in skyline_loop x w rest (n0', n1, n2') True updated)
            else skyline_loop x w rest (n0, n1, n2) merged updated)
         else if seg_y < n1 then skyline_loop x w rest (n0, n1, n2) merged updated
         else skyline_loop x w rest (n0, n1, n2) merged (updated @ [(seg_x, seg_y, seg_w)]))
      else skyline_loop x w rest (n0, n1, n2) merged (updated @ [(seg_x, seg_y, seg_w)]))"

definition skyline_key :: "segment \<Rightarrow> real \<times> real" where
  "skyline_key s = (fst (snd s), fst s)"

definition skyline_sorted_update :: "real \<Rightarrow> real \<Rightarrow> real \<Rightarrow> real \<Rightarrow> segment list \<Rightarrow> segment list" where
  "skyline_sorted_update x y w h skyline =
     (let (updated, new_segment) = skyline_loop x w skyline (x, y + h, w) False []
      in sort_key skyline_key (updated @ [new_segment]))"

definition update_skyline :: "real \<Rightarrow> real \<Rightarrow> real \<Rightarrow> real \<Rightarrow> segment list \<Rightarrow> segment list" where
  "update_skyline x y w h skyline =
     (let updated_skyline = skyline_sorted_update x y w h skyline
      in if length updated_skyline > 100 then take 100 updated_skyline else updated_skyline)"

text \<open>
  A run of placements used below: on a sheet of width 300, strip \<open>i\<close> (for
  \<open>i = 0, 1, 2, \<dots>\<close>) has footprint \<open>1 \<times> (i + 1)\<close> and is placed at \<open>(2 i, 0)\<close>.
  \<open>strip_skyline n\<close> is the skyline after the first \<open>n\<close> of these calls.
\<close>

definition strip_segment :: "nat \<Rightarrow> segment" where
  "strip_segment i = (2 * real i, real i + 1, 1)"

definition strip_skyline :: "nat \<Rightarrow> segment list" where
  "strip_skyline n =
     fold (\<lambda>i sky. update_skyline (2 * real i) 0 1 (real i + 1) sky) [0..<n] [(0, 0, 300)]"

section \<open>Guillotine variant (test\_nesting.py, class BeamSawNestingAlgorithm)\<close>

datatype RotationConstraint = NO_ROTATION | ROTATION_90_ALLOWED

datatype PanelGrainDirection = MATCH_SHEET | FIXED_HORIZONTAL | FIXED_VERTICAL

datatype SheetGrainDirection = GRAIN_HORIZONTAL | GRAIN_VERTICAL

datatype CutOrientation = CUT_HORIZONTAL | CUT_VERTICAL

datatype PanelSortStrategy = LARGEST_FIRST | SMALLEST_FIRST | AREA_DESCENDING | AREA_ASCENDING

record bs_panel =
  bp_width :: real
  bp_height :: real
  bp_rotation_constraint :: RotationConstraint
  bp_grain_direction :: PanelGrainDirection
  bp_id :: int
  bp_tag :: string

definition bp_area :: "bs_panel \<Rightarrow> real" where
  "bp_area p = bp_width p * bp_height p"

definition max_dimension :: "bs_panel \<Rightarrow> real" where
  "max_dimension p = max (bp_width p) (bp_height p)"

definition min_dimension :: "bs_panel \<Rightarrow> real" where
  "min_dimension p = min (bp_width p) (bp_height p)"

record placed_panel =
  pl_panel :: bs_panel
  pl_x :: real
  pl_y :: real
  pl_width :: real
  pl_height :: real
  pl_rotation_degrees :: int
  pl_final_grain_direction :: string
  pl_sheet_index :: int

record sub_sheet =
  ss_x :: real
  ss_y :: real
  ss_width :: real
  ss_height :: real
  ss_level :: int
  ss_parent_cut_id :: int
  ss_sheet_index :: int

definition ss_area :: "sub_sheet \<Rightarrow> real" where
  "ss_area s = ss_width s * ss_height s"

definition can_fit :: "sub_sheet \<Rightarrow> real \<Rightarrow> real \<Rightarrow> bool" where
  "can_fit s panel_width panel_height =
     (panel_width \<le> ss_width s + 1 / 1000000 \<and> panel_height \<le> ss_height s + 1 / 1000000)"

record cut_line =
  cl_id :: int
  cl_orientation :: CutOrientation
  cl_position :: real
  cl_start :: real
  cl_end :: real
  cl_kerf_thickness :: real
  cl_sheet_index :: int

record panel_placement =
  pm_panel :: bs_panel
  pm_sub_sheet :: sub_sheet
  pm_rotated :: bool
  pm_width :: real
  pm_height :: real
  pm_final_grain_direction :: string

text \<open>
  The algorithm object.  \<open>bs_warnings\<close> records the panels for which \<open>nest\<close> prints its
  "too large" warning.
\<close>

record beam_saw =
  bs_sheet_width :: real
  bs_sheet_height :: real
  bs_sheet_grain :: SheetGrainDirection
  bs_kerf_thickness :: real
  bs_preferred_cut_orientation :: CutOrientation
  bs_sort_strategy :: PanelSortStrategy
  bs_placed_panels :: "placed_panel list"
  bs_remaining_sub_sheets :: "sub_sheet list"
  bs_cut_lines :: "cut_line list"
  bs_current_sheet_index :: int
  bs_next_cut_id :: int
  bs_warnings :: "bs_panel list"

definition BeamSaw_init ::
  "real \<Rightarrow> real \<Rightarrow> SheetGrainDirection \<Rightarrow> real \<Rightarrow> CutOrientation \<Rightarrow> PanelSortStrategy \<Rightarrow> beam_saw" where
  "BeamSaw_init sheet_width sheet_height sheet_grain kerf_thickness preferred_cut sort_strategy =
     \<lparr>bs_sheet_width = sheet_width, bs_sheet_height = sheet_height, bs_sheet_grain = sheet_grain,
      bs_kerf_thickness = kerf_thickness, bs_preferred_cut_orientation = preferred_cut,
      bs_sort_strategy = sort_strategy, bs_placed_panels = [], bs_remaining_sub_sheets = [],
      bs_cut_lines = [], bs_current_sheet_index = 0, bs_next_cut_id = 0, bs_warnings = []\<rparr>"

text \<open>
  Python's \<open>sorted(\<dots>, reverse=True)\<close> is stable: equal keys keep their input order.
\<close>

definition sorted_desc :: "('a \<Rightarrow> 'k::linorder) \<Rightarrow> 'a list \<Rightarrow> 'a list" where
  "sorted_desc key xs = rev (sort_key key (rev xs))"

definition sort_panels :: "beam_saw \<Rightarrow> bs_panel list \<Rightarrow> bs_panel list" where
  "sort_panels a panels =
     (case bs_sort_strategy a of
        LARGEST_FIRST \<Rightarrow> sorted_desc max_dimension panels
      | SMALLEST_FIRST \<Rightarrow> sort_key max_dimension panels
      | AREA_DESCENDING \<Rightarrow> sorted_desc bp_area panels
      | AREA_ASCENDING \<Rightarrow> sort_key bp_area panels)"

definition add_new_sheet :: "beam_saw \<Rightarrow> beam_saw" where
  "add_new_sheet a =
     (let a1 = (if length (bs_remaining_sub_sheets a) > 0 \<or> length (bs_placed_panels a) > 0
                then a\<lparr>bs_current_sheet_index := bs_current_sheet_index a + 1\<rparr> else a);
          new_sheet = \<lparr>ss_x = 0, ss_y = 0, ss_width = bs_sheet_width a1,
                       ss_height = bs_sheet_height a1, ss_level = 0, ss_parent_cut_id = - 1,
                       ss_sheet_index = bs_current_sheet_index a1\<rparr>
      in a1\<lparr>bs_remaining_sub_sheets := bs_remaining_sub_sheets a1 @ [new_sheet]\<rparr>)"

text \<open>
  \<open>_validate_grain_direction\<close> returns the final grain direction, or \<open>None\<close> when the
  constraint is violated.  Its last \<open>else\<close> branch (\<open>"Unknown"\<close>) is for a grain value
  outside the enumeration and has no counterpart here.
\<close>

definition validate_grain_direction :: "beam_saw \<Rightarrow> bs_panel \<Rightarrow> bool \<Rightarrow> string option" where
  "validate_grain_direction a panel rotated =
     (let is_horizontal = ((\<not> rotated \<and> bp_width panel \<ge> bp_height panel)
                           \<or> (rotated \<and> bp_height panel \<ge> bp_width panel))
      in case bp_grain_direction panel of
           MATCH_SHEET \<Rightarrow>
             (let final_grain_dir =
                    (if bs_sheet_grain a = GRAIN_HORIZONTAL then ''Horizontal'' else ''Vertical'')
              in if bs_sheet_grain a = GRAIN_HORIZONTAL \<and> \<not> is_horizontal then None
                 else if bs_sheet_grain a = GRAIN_VERTICAL \<and> is_horizontal then None
                 else Some final_grain_dir)
         | FIXED_HORIZONTAL \<Rightarrow> (if \<not> is_horizontal then None else Some ''Horizontal'')
         | FIXED_VERTICAL \<Rightarrow> (if is_horizontal then None else Some ''Vertical''))"

definition can_place_panel_in_sub_sheet ::
  "beam_saw \<Rightarrow> bs_panel \<Rightarrow> sub_sheet \<Rightarrow> bool \<Rightarrow> panel_placement option" where
  "can_place_panel_in_sub_sheet a panel sub rotate_flag =
     (let panel_w = (if rotate_flag then bp_height panel else bp_width panel);
          panel_h = (if rotate_flag then bp_width panel else bp_height panel)
      in if \<not> can_fit sub panel_w panel_h then None
         else case validate_grain_direction a panel rotate_flag of
                None \<Rightarrow> None
              | Some final_grain_dir \<Rightarrow>
                  Some \<lparr>pm_panel = panel, pm_sub_sheet = sub, pm_rotated = rotate_flag,
                        pm_width = panel_w, pm_height = panel_h,
                        pm_final_grain_direction = final_grain_dir\<rparr>)"

text \<open>
  One \<open>CutLine\<close> plus the child \<open>SubSheet\<close> it produces: the block that
  \<open>_perform_guillotine_cut\<close> repeats four times, with the cut's orientation, position
  and span and the child's rectangle as arguments.
\<close>

definition cut_and_append ::
  "beam_saw \<Rightarrow> sub_sheet \<Rightarrow> CutOrientation \<Rightarrow> real \<Rightarrow> real \<Rightarrow> real
     \<Rightarrow> real \<Rightarrow> real \<Rightarrow> real \<Rightarrow> real \<Rightarrow> beam_saw" where
  "cut_and_append a sub orientation position start finish x y width height =
     (let cut = \<lparr>cl_id = bs_next_cut_id a, cl_orientation = orientation, cl_position = position,
                 cl_start = start, cl_end = finish, cl_kerf_thickness = bs_kerf_thickness a,
                 cl_sheet_index = ss_sheet_index sub\<rparr>;
          child = \<lparr>ss_x = x, ss_y = y, ss_width = width, ss_height = height,
                   ss_level = ss_level sub + 1, ss_parent_cut_id = cl_id cut,
                   ss_sheet_index = ss_sheet_index sub\<rparr>
      in a\<lparr>bs_cut_lines := bs_cut_lines a @ [cut],
            bs_next_cut_id := bs_next_cut_id a + 1,
            bs_remaining_sub_sheets := bs_remaining_sub_sheets a @ [child]\<rparr>)"

definition perform_guillotine_cut :: "beam_saw \<Rightarrow> sub_sheet \<Rightarrow> real \<Rightarrow> real \<Rightarrow> beam_saw" where
  "perform_guillotine_cut a sub used_width used_height =
     (let remaining_width = ss_width sub - used_width - bs_kerf_thickness a;
          remaining_height = ss_height sub - used_height - bs_kerf_thickness a;
          cut_horizontal_first =
            (if \<bar>remaining_width - remaining_height\<bar> > 1 / 1000000
             then remaining_height > remaining_width
             else bs_preferred_cut_orientation a = CUT_HORIZONTAL)
      in if cut_horizontal_first then
           (let a1 = (if remaining_height > 1 / 1000000 then
                        cut_and_append a sub CUT_HORIZONTAL (ss_y sub + used_height)
                          (ss_x sub) (ss_x sub + ss_width sub)
                          (ss_x sub) (ss_y sub + used_height + bs_kerf_thickness a)
                          (ss_width sub) remaining_height
                      else a)
            in if remaining_width > 1 / 1000000 then
                 cut_and_append a1 sub CUT_VERTICAL (ss_x sub + used_width)
                   (ss_y sub) (ss_y sub + used_height)
                   (ss_x sub + used_width + bs_kerf_thickness a) (ss_y sub)
                   remaining_width used_height
               else a1)
         else
           (let a1 = (if remaining_width > 1 / 1000000 then
                        cut_and_append a sub CUT_VERTICAL (ss_x sub + used_width)
                          (ss_y sub) (ss_y sub + ss_height sub)
                          (ss_x sub + used_width + bs_kerf_thickness a) (ss_y sub)
                          remaining_width (ss_height sub)
                      else a)
            in if remaining_height > 1 / 1000000 then
                 cut_and_append a1 sub CUT_HORIZONTAL (ss_y sub + used_height)
                   (ss_x sub) (ss_x sub + used_width)
                   (ss_x sub) (ss_y sub + used_height + bs_kerf_thickness a)
                   used_width remaining_height
               else a1))"

definition place_panel :: "beam_saw \<Rightarrow> bs_panel \<Rightarrow> sub_sheet \<Rightarrow> panel_placement \<Rightarrow> beam_saw" where
  "place_panel a panel sub placement =
     (let placed = \<lparr>pl_panel = panel, pl_x = ss_x sub, pl_y = ss_y sub,
                    pl_width = pm_width placement, pl_height = pm_height placement,
                    pl_rotation_degrees = (if pm_rotated placement then 90 else 0),
                    pl_final_grain_direction = pm_final_grain_direction placement,
                    pl_sheet_index = ss_sheet_index sub\<rparr>;
          a1 = a\<lparr>bs_placed_panels := bs_placed_panels a @ [placed],
                  bs_remaining_sub_sheets := remove1 sub (bs_remaining_sub_sheets a)\<rparr>
      in perform_guillotine_cut a1 sub (pm_width placement) (pm_height placement))"

text \<open>
  The \<open>for sub_sheet in sorted_sub_sheets\<close> loop of \<open>_try_place_panel\<close>; it returns at
  the first accepted placement.
\<close>

fun try_place_loop :: "beam_saw \<Rightarrow> bs_panel \<Rightarrow> sub_sheet list \<Rightarrow> beam_saw \<times> bool" where
  "try_place_loop a panel [] = (a, False)"
| "try_place_loop a panel (sub # rest) =
     (case can_place_panel_in_sub_sheet a panel sub False of
        Some placement \<Rightarrow> (place_panel a panel sub placement, True)
      | None \<Rightarrow>
          (if bp_rotation_constraint panel = ROTATION_90_ALLOWED then
             (case can_place_panel_in_sub_sheet a panel sub True of
                Some placement \<Rightarrow> (place_panel a panel sub placement, True)
              | None \<Rightarrow> try_place_loop a panel rest)
           else try_place_loop a panel rest))"

definition try_place_panel :: "beam_saw \<Rightarrow> bs_panel \<Rightarrow> beam_saw \<times> bool" where
  "try_place_panel a panel =
     (let current_sheet_sub_sheets =
            filter (\<lambda>s. ss_sheet_index s = bs_current_sheet_index a) (bs_remaining_sub_sheets a);
          sorted_sub_sheets = sort_key ss_area current_sheet_sub_sheets
      in try_place_loop a panel sorted_sub_sheets)"

fun bs_nest_loop :: "beam_saw \<Rightarrow> bs_panel list \<Rightarrow> beam_saw" where
  "bs_nest_loop a [] = a"
| "bs_nest_loop a (panel # rest) =
     (case try_place_panel a panel of
        (a1, True) \<Rightarrow> bs_nest_loop a1 rest
      | (a1, False) \<Rightarrow>
          (case try_place_panel (add_new_sheet a1) panel of
             (a2, True) \<Rightarrow> bs_nest_loop a2 rest
           | (a2, False) \<Rightarrow> bs_nest_loop (a2\<lparr>bs_warnings := bs_warnings a2 @ [panel]\<rparr>) rest))"

definition nest :: "beam_saw \<Rightarrow> bs_panel list \<Rightarrow> beam_saw" where
  "nest a panels = bs_nest_loop (add_new_sheet a) (sort_panels a panels)"

text \<open>
  The grain rule in the words of the specification: a panel's effective orientation
  is horizontal if and only if its width in that orientation is at least its height,
  and it must match the configured constraint.
\<close>

definition effective_width :: "bs_panel \<Rightarrow> bool \<Rightarrow> real" where
  "effective_width p rotated = (if rotated then bp_height p else bp_width p)"

definition effective_height :: "bs_panel \<Rightarrow> bool \<Rightarrow> real" where
  "effective_height p rotated = (if rotated then bp_width p else bp_height p)"

definition spec_grain_ok :: "SheetGrainDirection \<Rightarrow> bs_panel \<Rightarrow> bool \<Rightarrow> bool" where
  "spec_grain_ok sheet_grain p rotated =
     (let horizontal = (effective_width p rotated \<ge> effective_height p rotated)
      in case bp_grain_direction p of
           MATCH_SHEET \<Rightarrow> (horizontal = (sheet_grain = GRAIN_HORIZONTAL))
         | FIXED_HORIZONTAL \<Rightarrow> horizontal
         | FIXED_VERTICAL \<Rightarrow> \<not> horizontal)"

text \<open>
  The panel of the guillotine scenario (54 by 40, grain to match the sheet), and a
  panel that is upright as given (40 by 54, rotation allowed).
\<close>

definition scenario_panel :: "RotationConstraint \<Rightarrow> int \<Rightarrow> string \<Rightarrow> bs_panel" where
  "scenario_panel rc i t =
     \<lparr>bp_width = 54, bp_height = 40, bp_rotation_constraint = rc,
      bp_grain_direction = MATCH_SHEET, bp_id = i, bp_tag = t\<rparr>"

definition upright_panel :: bs_panel where
  "upright_panel =
     \<lparr>bp_width = 40, bp_height = 54, bp_rotation_constraint = ROTATION_90_ALLOWED,
      bp_grain_direction = MATCH_SHEET, bp_id = 0, bp_tag = ''''\<rparr>"

definition stock_sub_sheet :: sub_sheet where
  "stock_sub_sheet =
     \<lparr>ss_x = 0, ss_y = 0, ss_width = 240, ss_height = 120, ss_level = 0,
      ss_parent_cut_id = - 1, ss_sheet_index = 0\<rparr>"

section \<open>Sheets (class Sheet of the three nesting scripts)\<close>

text \<open>
  The three scripts each carry a copy of class \<open>Sheet\<close>.  The fields, the constructor
  (up to the configured grid constants), \<open>_get_grid_cells\<close>, \<open>_update_skyline\<close>,
  \<open>_update_free_rects\<close> and \<open>_prune_free_rects\<close> are the same text in all three, so the
  record is polymorphic in the panel type and these functions are shared.

  \<open>self.grid\<close> is a list of rows of cells, each cell a list of panel indices.  It is
  modelled as a total map from \<open>(row, col)\<close> to the cell's list; the source reads and
  writes only the cells returned by \<open>_get_grid_cells\<close>, which lie inside the grid
  (lemma \<open>get_grid_cells_in_range\<close>).

  Exceptions the interpreter can raise in this code are values of \<open>py_error\<close>:
  the float divisions by \<open>cell_w\<close>, \<open>cell_h\<close> and by the sheet area raise
  \<open>ZeroDivisionError\<close>, list reads out of range raise \<open>IndexError\<close>, and \<open>int()\<close> of a
  complex number raises \<open>TypeError\<close>.
\<close>

datatype py_error = ZeroDivisionError | IndexError | TypeError

record 'p sheet =
  sh_orig_w :: real
  sh_orig_h :: real
  sh_w :: real
  sh_h :: real
  sh_panels :: "('p \<times> real \<times> real) list"
  sh_type_id :: int
  sh_filled_area :: real
  sh_grid_cols :: int
  sh_grid_rows :: int
  sh_cell_w :: real
  sh_cell_h :: real
  sh_grid :: "int \<times> int \<Rightarrow> nat list"
  sh_skyline :: "segment list"
  sh_free_rects :: "free_rectangle list"

text \<open>Python's \<open>int(x)\<close> on a float truncates towards zero.\<close>

definition py_int :: "real \<Rightarrow> int" where
  "py_int r = (if r \<ge> 0 then \<lfloor>r\<rfloor> else \<lceil>r\<rceil>)"

text \<open>
  The constructor with the grid constants as arguments: \<open>target_cells\<close>, \<open>min_cells\<close>
  and \<open>max_cells\<close> are 5, 5, 50 in the hybrid and planar scripts and
  \<open>CONFIG.GRID_TARGET_CELLS\<close>, \<open>GRID_MIN_CELLS\<close>, \<open>GRID_MAX_CELLS\<close> in v2.
  \<open>avg_panel_size\<close> is \<open>None\<close> or a float; \<open>if avg_panel_size:\<close> also rejects \<open>0.0\<close>.
\<close>

definition Sheet_config ::
  "real \<Rightarrow> int \<Rightarrow> int \<Rightarrow> real \<Rightarrow> real \<Rightarrow> int \<Rightarrow> real option \<Rightarrow> 'p sheet" where
  "Sheet_config target_cells min_cells max_cells w h type_id avg_panel_size =
     (let (cols, rows) =
            (case avg_panel_size of
               None \<Rightarrow> (20, 20)
             | Some a \<Rightarrow>
                 if a = 0 then (20, 20)
                 else (let target_cell_size = a * target_cells
                       in (max min_cells (min max_cells (py_int (w / target_cell_size))),
                           max min_cells (min max_cells (py_int (h / target_cell_size))))))
      in \<lparr>sh_orig_w = w, sh_orig_h = h, sh_w = w, sh_h = h, sh_panels = [],
          sh_type_id = type_id, sh_filled_area = 0,
          sh_grid_cols = cols, sh_grid_rows = rows,
          sh_cell_w = w / real_of_int cols, sh_cell_h = h / real_of_int rows,
          sh_grid = (\<lambda>cell. []),
          sh_skyline = [(0, 0, w)],
          sh_free_rects = [FreeRectangle 0 0 w h]\<rparr>)"

definition Sheet_init :: "real \<Rightarrow> real \<Rightarrow> int \<Rightarrow> real option \<Rightarrow> 'p sheet" where
  "Sheet_init w h type_id avg_panel_size = Sheet_config 5 5 50 w h type_id avg_panel_size"

definition get_grid_cells ::
  "'p sheet \<Rightarrow> real \<Rightarrow> real \<Rightarrow> real \<Rightarrow> real \<Rightarrow> py_error + (int \<times> int) list" where
  "get_grid_cells s x y w h =
     (if sh_cell_w s = 0 \<or> sh_cell_h s = 0 then Inl ZeroDivisionError
      else
        (let x0 = max 0 (min (sh_grid_cols s - 1) \<lfloor>x / sh_cell_w s\<rfloor>);
             y0 = max 0 (min (sh_grid_rows s - 1) \<lfloor>y / sh_cell_h s\<rfloor>);
             x1 = max 0 (min (sh_grid_cols s - 1) \<lceil>(x + w) / sh_cell_w s\<rceil>);
             y1 = max 0 (min (sh_grid_rows s - 1) \<lceil>(y + h) / sh_cell_h s\<rceil>)
         in Inr (concat (map (\<lambda>row. map (\<lambda>col. (row, col))
                                 (filter (\<lambda>col. row < sh_grid_rows s \<and> col < sh_grid_cols s)
                                    [x0..x1]))
                           [y0..y1]))))"

text \<open>\<open>for row, col in cells: self.grid[row][col].append(panel_idx)\<close>\<close>

definition register_cells :: "(int \<times> int \<Rightarrow> nat list) \<Rightarrow> (int \<times> int) list \<Rightarrow> nat \<Rightarrow> (int \<times> int \<Rightarrow> nat list)" where
  "register_cells grid cells panel_idx = fold (\<lambda>cell g. g(cell := g cell @ [panel_idx])) cells grid"

text \<open>\<open>_update_free_rects\<close>: the four-way split of every free rectangle that meets the
  placed one, followed by the pruning.\<close>

definition split_free_rect :: "real \<Rightarrow> real \<Rightarrow> real \<Rightarrow> real \<Rightarrow> free_rectangle \<Rightarrow> free_rectangle list" where
  "split_free_rect placed_x placed_y placed_w placed_h rect =
     (if \<not> intersects rect (FreeRectangle placed_x placed_y placed_w placed_h) then [rect]
      else
        (if placed_x > fr_x rect
         then [FreeRectangle (fr_x rect) (fr_y rect) (placed_x - fr_x rect) (fr_h rect)] else [])
        @ (if placed_x + placed_w < fr_x rect + fr_w rect
           then [FreeRectangle (placed_x + placed_w) (fr_y rect)
                   (fr_x rect + fr_w rect - (placed_x + placed_w)) (fr_h rect)] else [])
        @ (if placed_y > fr_y rect
           then [FreeRectangle (fr_x rect) (fr_y rect) (fr_w rect) (placed_y - fr_y rect)] else [])
        @ (if placed_y + placed_h < fr_y rect + fr_h rect
           then [FreeRectangle (fr_x rect) (placed_y + placed_h) (fr_w rect)
                   (fr_y rect + fr_h rect - (placed_y + placed_h))] else []))"

definition update_free_rects ::
  "real \<Rightarrow> real \<Rightarrow> real \<Rightarrow> real \<Rightarrow> free_rectangle list \<Rightarrow> free_rectangle list" where
  "update_free_rects placed_x placed_y placed_w placed_h free_rects =
     prune_free_rects (concat (map (split_free_rect placed_x placed_y placed_w placed_h) free_rects))"

text \<open>
  The body shared by the \<open>place\<close> methods: append the triple, register the footprint
  in the grid, add \<open>area\<close> to the accumulator, update skyline and free rectangles.
  The hybrid and v2 scripts add \<open>pw * ph\<close>, the planar script adds \<open>panel.area\<close>.
\<close>

definition place_with ::
  "'p sheet \<Rightarrow> 'p \<Rightarrow> real \<Rightarrow> real \<Rightarrow> real \<Rightarrow> real \<Rightarrow> real \<Rightarrow> py_error + 'p sheet" where
  "place_with s panel x y pw ph area =
     (let panel_idx = length (sh_panels s)
      in case get_grid_cells s x y pw ph of
           Inl e \<Rightarrow> Inl e
         | Inr cells \<Rightarrow>
             Inr (s\<lparr>sh_panels := sh_panels s @ [(panel, x, y)],
                    sh_grid := register_cells (sh_grid s) cells panel_idx,
                    sh_filled_area := sh_filled_area s + area,
                    sh_skyline := update_skyline x y pw ph (sh_skyline s),
                    sh_free_rects := update_free_rects x y pw ph (sh_free_rects s)\<rparr>))"

text \<open>
  \<open>get_candidate_positions\<close> (hybrid and planar): \<open>footprints\<close> are the placed panels
  as \<open>(px, py, pw, ph)\<close>.  The source collects the positions in a set and sorts the
  survivors by \<open>(y, x)\<close>; the sort key determines the element, so the result does not
  depend on the set's iteration order.
\<close>

definition candidate_positions ::
  "segment list \<Rightarrow> (real \<times> real \<times> real \<times> real) list \<Rightarrow> real \<Rightarrow> real \<Rightarrow> (real \<times> real) list" where
  "candidate_positions skyline footprints sheet_w sheet_h =
     (if footprints = [] then [(0, 0)]
      else
        (let from_skyline =
               concat (map (\<lambda>(x, y, w). (x, y) # (if x + w < sheet_w then [(x + w, y)] else []))
                         (take 30 skyline));
             from_panels =
               concat (map (\<lambda>(px, py, pw, ph).
                              [(px + pw, py), (px, py + ph), (px + pw, py + ph),
                               (0, py + ph), (px + pw, 0)])
                         footprints);
             positions = remdups (from_skyline @ from_panels);
             valid_positions =
               filter (\<lambda>(x, y). x \<ge> 0 \<and> y \<ge> 0 \<and> x < sheet_w \<and> y < sheet_h) positions
         in sort_key (\<lambda>p. (snd p, fst p)) valid_positions))"

text \<open>\<open>xs[::k]\<close> and the sampling of \<open>try_add_panel\<close> when there are more than 50
  candidates.\<close>

fun stride :: "nat \<Rightarrow> 'a list \<Rightarrow> 'a list" where
  "stride k [] = []"
| "stride k (x # xs) = x # stride k (drop (k - 1) xs)"

definition sample_positions :: "(real \<times> real) list \<Rightarrow> (real \<times> real) list" where
  "sample_positions positions =
     (let n = length positions
      in if n > 50 then
           take 50 (take 20 positions @ drop (n - 10) positions
                    @ stride (max 1 ((n - 30) div 20)) (take (n - 30) (drop 20 positions)))
         else positions)"

text \<open>
  The running best of \<open>try_add_panel\<close>: \<open>best_position\<close> (\<open>None\<close> at first),
  \<open>best_waste\<close> (\<open>None\<close> stands for \<open>float('inf')\<close>) and the orientation.
\<close>

type_synonym 'r best = "(real \<times> real) option \<times> real option \<times> 'r"

definition better :: "'r best \<Rightarrow> real \<Rightarrow> real \<times> real \<Rightarrow> 'r \<Rightarrow> 'r best" where
  "better b waste pos r =
     (case b of (best_position, best_waste, best_rotated) \<Rightarrow>
        if (case best_waste of None \<Rightarrow> True | Some v \<Rightarrow> waste < v)
        then (Some pos, Some waste, r) else b)"

section \<open>The rectangular sheet (optimized\_nesting\_hybrid.py)\<close>

text \<open>
  \<open>Sheet.fits\<close>.  \<open>fits_indices\<close> is the inner loop over one cell's indices,
  \<open>fits_cells\<close> the outer loop over the cells; \<open>checked\<close> is threaded through both.
  A collision ends both loops with \<open>False\<close>.
\<close>

datatype scan = Collision | Clear "nat set"

fun fits_indices ::
  "real \<Rightarrow> panel sheet \<Rightarrow> real \<Rightarrow> real \<Rightarrow> real \<Rightarrow> real \<Rightarrow> nat list \<Rightarrow> nat set \<Rightarrow> py_error + scan" where
  "fits_indices kerf s x y pw ph [] checked = Inr (Clear checked)"
| "fits_indices kerf s x y pw ph (panel_idx # rest) checked =
     (if panel_idx \<in> checked then fits_indices kerf s x y pw ph rest checked
      else if panel_idx \<ge> length (sh_panels s) then Inl IndexError
      else
        (case sh_panels s ! panel_idx of (p, px, py) \<Rightarrow>
           (let p_pw = get_placed_width kerf p;
                p_ph = get_placed_height kerf p
            in if \<not> (x + pw \<le> px \<or> x \<ge> px + p_pw \<or> y + ph \<le> py \<or> y \<ge> py + p_ph)
               then Inr Collision
               else fits_indices kerf s x y pw ph rest (insert panel_idx checked))))"

fun fits_cells ::
  "real \<Rightarrow> panel sheet \<Rightarrow> real \<Rightarrow> real \<Rightarrow> real \<Rightarrow> real \<Rightarrow> (int \<times> int) list \<Rightarrow> nat set \<Rightarrow> py_error + bool" where
  "fits_cells kerf s x y pw ph [] checked = Inr True"
| "fits_cells kerf s x y pw ph (cell # cells) checked =
     (case fits_indices kerf s x y pw ph (sh_grid s cell) checked of
        Inl e \<Rightarrow> Inl e
      | Inr Collision \<Rightarrow> Inr False
      | Inr (Clear checked') \<Rightarrow> fits_cells kerf s x y pw ph cells checked')"

definition fits :: "real \<Rightarrow> panel sheet \<Rightarrow> panel \<Rightarrow> real \<Rightarrow> real \<Rightarrow> py_error + bool" where
  "fits kerf s panel x y =
     (let pw = get_placed_width kerf panel;
          ph = get_placed_height kerf panel;
          epsilon = 1 / 1000000
      in if x + pw > sh_w s + epsilon \<or> y + ph > sh_h s + epsilon \<or> x < - epsilon \<or> y < - epsilon
         then Inr False
         else case get_grid_cells s x y pw ph of
                Inl e \<Rightarrow> Inl e
              | Inr cells \<Rightarrow> fits_cells kerf s x y pw ph cells {})"

definition place :: "real \<Rightarrow> panel sheet \<Rightarrow> panel \<Rightarrow> real \<Rightarrow> real \<Rightarrow> py_error + panel sheet" where
  "place kerf s panel x y =
     (let pw = get_placed_width kerf panel;
          ph = get_placed_height kerf panel
      in place_with s panel x y pw ph (pw * ph))"

definition footprint :: "real \<Rightarrow> panel \<times> real \<times> real \<Rightarrow> real \<times> real \<times> real \<times> real" where
  "footprint kerf t =
     (case t of (p, px, py) \<Rightarrow> (px, py, get_placed_width kerf p, get_placed_height kerf p))"

definition get_candidate_positions :: "real \<Rightarrow> panel sheet \<Rightarrow> (real \<times> real) list" where
  "get_candidate_positions kerf s =
     candidate_positions (sh_skyline s) (map (footprint kerf) (sh_panels s)) (sh_w s) (sh_h s)"

text \<open>
  The loop of \<open>try_add_panel\<close>.  The panel is rotated for the second test and rotated
  back, so every iteration starts from the same panel.
\<close>

fun try_positions ::
  "real \<Rightarrow> panel sheet \<Rightarrow> panel \<Rightarrow> (real \<times> real) list \<Rightarrow> bool best \<Rightarrow> py_error + bool best" where
  "try_positions kerf s panel [] b = Inr b"
| "try_positions kerf s panel ((x, y) # rest) b =
     (case fits kerf s panel x y of
        Inl e \<Rightarrow> Inl e
      | Inr f1 \<Rightarrow>
          (let b1 = (if f1 then better b (y + get_placed_height kerf panel) (x, y) False else b)
           in case fits kerf s (rotate panel) x y of
                Inl e \<Rightarrow> Inl e
              | Inr f2 \<Rightarrow>
                  (let b2 = (if f2 then better b1 (y + get_placed_height kerf (rotate panel)) (x, y) True
                             else b1)
                   in try_positions kerf s (rotate (rotate panel)) rest b2)))"

definition try_add_panel ::
  "real \<Rightarrow> panel sheet \<Rightarrow> panel \<Rightarrow> py_error + (bool \<times> real \<times> real \<times> bool)" where
  "try_add_panel kerf s panel =
     (let positions = sample_positions (get_candidate_positions kerf s)
      in case try_positions kerf s panel positions (None, None, False) of
           Inl e \<Rightarrow> Inl e
         | Inr (best_position, best_waste, best_rotated) \<Rightarrow>
             (case best_position of
                Some (x, y) \<Rightarrow> Inr (True, x, y, best_rotated)
              | None \<Rightarrow> Inr (False, 0, 0, False)))"

text \<open>
  \<open>Sheet.add\<close> returns the success flag; the model also returns the sheet and the
  panel object as the call leaves them.
\<close>

definition add :: "real \<Rightarrow> panel sheet \<Rightarrow> panel \<Rightarrow> py_error + (bool \<times> panel sheet \<times> panel)" where
  "add kerf s panel =
     (case try_add_panel kerf s panel of
        Inl e \<Rightarrow> Inl e
      | Inr (success, x, y, rotated) \<Rightarrow>
          if success then
            (let panel' = (if rotated then rotate panel else panel)
             in case place kerf s panel' x y of
                  Inl e \<Rightarrow> Inl e
                | Inr s' \<Rightarrow> Inr (True, s', panel'))
          else Inr (False, s, panel))"



text \<open>Sheet states reached by a run of \<open>place\<close> calls, and by a run of \<open>add\<close> calls.\<close>

fun place_all :: "real \<Rightarrow> panel sheet \<Rightarrow> (panel \<times> real \<times> real) list \<Rightarrow> py_error + panel sheet" where
  "place_all kerf s [] = Inr s"
| "place_all kerf s ((p, x, y) # rest) =
     (case place kerf s p x y of Inl e \<Rightarrow> Inl e | Inr s' \<Rightarrow> place_all kerf s' rest)"





section \<open>Invariants of a rectangular sheet\<close>

text \<open>
  A panel is admissible when its kerf-inclusive sizes are not negative (input
  processing keeps only positive panel sizes, and the kerf is a thickness).
\<close>

definition panel_ok :: "real \<Rightarrow> panel \<Rightarrow> bool" where
  "panel_ok kerf p = (0 \<le> get_placed_width kerf p \<and> 0 \<le> get_placed_height kerf p)"

text \<open>
  The grid invariant: cells have positive size, every index stored in a cell is the
  index of a placed panel, and every placed panel is stored in each cell that
  \<open>_get_grid_cells\<close> returns for its footprint.
\<close>

definition grid_inv :: "real \<Rightarrow> panel sheet \<Rightarrow> bool" where
  "grid_inv kerf s =
     (0 < sh_cell_w s \<and> 0 < sh_cell_h s \<and> 0 < sh_grid_cols s \<and> 0 < sh_grid_rows s
      \<and> (\<forall>cell. \<forall>i \<in> set (sh_grid s cell). i < length (sh_panels s))
      \<and> (\<forall>i < length (sh_panels s). \<forall>p px py cells.
            sh_panels s ! i = (p, px, py) \<longrightarrow>
            get_grid_cells s px py (get_placed_width kerf p) (get_placed_height kerf p) = Inr cells \<longrightarrow>
            (\<forall>cell \<in> set cells. i \<in> set (sh_grid s cell)))
      \<and> (\<forall>t \<in> set (sh_panels s). panel_ok kerf (fst t)))"





text \<open>
  A unit sheet (grid 5 by 5) and a panel whose width exceeds the sheet's by
  \<open>2\<^sup>-\<^sup>2\<^sup>1\<close>, less than the tolerance \<open>10\<^sup>-\<^sup>6\<close> of \<open>fits\<close>.
\<close>

definition wide_panel :: panel where
  "wide_panel = Panel_init (2097153 / 2097152) 1 0 None"

definition unit_sheet :: "panel sheet" where
  "unit_sheet = Sheet_init 1 1 0 (Some 1)"

section \<open>The shape-bearing sheet (optimized\_nesting\_planar.py)\<close>












text \<open>The planar \<open>Sheet.place\<close> adds \<open>panel.area\<close>, the area computed at construction.\<close>

definition pp_place ::
  "real \<Rightarrow> planar_panel sheet \<Rightarrow> planar_panel \<Rightarrow> real \<Rightarrow> real \<Rightarrow> py_error + planar_panel sheet" where
  "pp_place kerf s panel x y =
     (let pw = pp_get_placed_width kerf panel;
          ph = pp_get_placed_height kerf panel
      in place_with s panel x y pw ph (pp_area panel))"







fun pp_place_all ::
  "real \<Rightarrow> planar_panel sheet \<Rightarrow> (planar_panel \<times> real \<times> real) list \<Rightarrow> py_error + planar_panel sheet" where
  "pp_place_all kerf s [] = Inr s"
| "pp_place_all kerf s ((p, x, y) # rest) =
     (case pp_place kerf s p x y of Inl e \<Rightarrow> Inl e | Inr s' \<Rightarrow> pp_place_all kerf s' rest)"


text \<open>
  Three shapes on a sheet 15 by 12 (grid 5 by 5): a right triangle with legs 12
  that leaves the upper left half of its bounding box empty, a rectangle 3 by 5
  and a square 4 by 4.  Each point list is the closed polyline of the boundary.
\<close>

definition corner_panel :: planar_panel where
  "corner_panel = PlanarPanel_init [(0, 0), (12, 0), (12, 12), (0, 0)] (0, 0) (12, 12) 72 0 None"

definition strip_panel :: planar_panel where
  "strip_panel = PlanarPanel_init [(0, 0), (3, 0), (3, 5), (0, 5), (0, 0)] (0, 0) (3, 5) 15 1 None"

definition square_panel :: planar_panel where
  "square_panel = PlanarPanel_init [(0, 0), (4, 0), (4, 4), (0, 4), (0, 0)] (0, 0) (4, 4) 16 2 None"

definition planar_sheet :: "planar_panel sheet" where
  "planar_sheet = Sheet_init 15 12 0 (Some 10)"

text \<open>
  What the planar \<open>fits\<close> needs to raise nothing: cells of non-zero size, grid
  indices that refer to placed panels, and non-empty boundaries.  \<open>pp_clear_of\<close>:
  the placed panel \<open>t\<close> does not reject the candidate.
\<close>

definition pp_sound :: "planar_panel sheet \<Rightarrow> bool" where
  "pp_sound s =
     (sh_cell_w s \<noteq> 0 \<and> sh_cell_h s \<noteq> 0
      \<and> (\<forall>cell. \<forall>i \<in> set (sh_grid s cell). i < length (sh_panels s))
      \<and> (\<forall>t \<in> set (sh_panels s). pp_boundary_points (fst t) \<noteq> []))"


text \<open>The area of a footprint \<open>(x, y, w, h)\<close>.\<close>

definition footprint_area :: "real \<times> real \<times> real \<times> real \<Rightarrow> real" where
  "footprint_area a = (case a of (x, y, w, h) \<Rightarrow> w * h)"

section \<open>The nesting driver (nest\_panels, optimized\_nesting\_hybrid.py)\<close>




















section \<open>Rotation round trip\<close>

lemma rotate_twice: "rotate (rotate p) = p"
  by (simp add: rotate_def)

lemma pp_rotate_angle_range:
  "pp_rotation_angle ((pp_rotate ^^ n) (PlanarPanel_init pts bmin bmax a i t)) \<in> {0, 90, 180, 270}
   \<and> pp_rotated ((pp_rotate ^^ n) (PlanarPanel_init pts bmin bmax a i t))
       = (pp_rotation_angle ((pp_rotate ^^ n) (PlanarPanel_init pts bmin bmax a i t)) \<noteq> 0)"
proof (induction n)
  case 0
  show ?case by (simp add: PlanarPanel_init_def)
next
  case (Suc n)
  then show ?case by (auto simp: pp_rotate_def Let_def)
qed

lemma pp_rotate_four_fields:
  assumes "pp_rotation_angle q \<in> {0, 90, 180, 270}"
    and "pp_rotated q = (pp_rotation_angle q \<noteq> 0)"
  shows "pp_w ((pp_rotate ^^ 4) q) = pp_w q \<and> pp_h ((pp_rotate ^^ 4) q) = pp_h q
    \<and> pp_rotated ((pp_rotate ^^ 4) q) = pp_rotated q
    \<and> pp_rotation_angle ((pp_rotate ^^ 4) q) = pp_rotation_angle q"
  using assms by (auto simp: pp_rotate_def Let_def numeral_eq_Suc)

text \<open>
  C9.  Calling \<open>rotate()\<close> four times in succession returns a panel's width, height
  and rotated flag to the values they had before: for a rectangular \<open>Panel\<close> the
  whole object is unchanged, and for a \<open>PlanarPanel\<close> in any state it can be in (the
  constructor followed by any number of rotations) the width, the height, the rotated
  flag and the rotation angle are unchanged.
\<close>

theorem rotation_round_trip:
  "(rotate ^^ 4) p = p
   \<and> (\<forall>n. let q = (pp_rotate ^^ n) (PlanarPanel_init pts bmin bmax a i t);
                 r = (pp_rotate ^^ 4) q
             in pp_w r = pp_w q \<and> pp_h r = pp_h q \<and> pp_rotated r = pp_rotated q
                \<and> pp_rotation_angle r = pp_rotation_angle q)"
proof
  show "(rotate ^^ 4) p = p"
    by (simp add: numeral_eq_Suc rotate_twice)
next
  have "pp_w ((pp_rotate ^^ 4) q) = pp_w q \<and> pp_h ((pp_rotate ^^ 4) q) = pp_h q
      \<and> pp_rotated ((pp_rotate ^^ 4) q) = pp_rotated q
      \<and> pp_rotation_angle ((pp_rotate ^^ 4) q) = pp_rotation_angle q"
    if "q = (pp_rotate ^^ n) (PlanarPanel_init pts bmin bmax a i t)" for q n
    using pp_rotate_angle_range [of n pts bmin bmax a i t] that
    by (intro pp_rotate_four_fields) auto
  then show "\<forall>n. let q = (pp_rotate ^^ n) (PlanarPanel_init pts bmin bmax a i t);
                 r = (pp_rotate ^^ 4) q
             in pp_w r = pp_w q \<and> pp_h r = pp_h q \<and> pp_rotated r = pp_rotated q
                \<and> pp_rotation_angle r = pp_rotation_angle q"
    unfolding Let_def by blast
qed

section \<open>Free-rectangle pruning and the skyline\<close>

lemma set_prune:
  assumes "1 < length rects"
  shows "set (prune_free_rects rects) =
    {rects ! i | i. i < length rects \<and> \<not> (\<exists>j < length rects. i \<noteq> j \<and> contains (rects ! j) (rects ! i))}"
proof -
  have "set (prune_free_rects rects) =
      snd ` {ir \<in> set (enumerate 0 rects).
               \<not> (\<exists>jo \<in> set (enumerate 0 rects). fst ir \<noteq> fst jo \<and> contains (snd jo) (snd ir))}"
    using assms by (auto simp: prune_free_rects_def list_ex_iff split_def)
  also have "\<dots> = {rects ! i | i. i < length rects
      \<and> \<not> (\<exists>j < length rects. i \<noteq> j \<and> contains (rects ! j) (rects ! i))}"
    by (auto simp: in_set_enumerate_eq image_iff Bex_def) 
  finally show ?thesis .
qed

lemma contains_refl: "contains r r"
  by (simp add: contains_def)

text \<open>
  C10.  If the list given to \<open>_prune_free_rects\<close> holds the same rectangle
  \<open>(x, y, w, h)\<close> at two distinct indices, then no copy of it survives the pruning:
  each copy is judged contained in another one.  In particular the list of two equal
  rectangles is pruned to the empty list, so the free region they describe is lost.
\<close>

theorem prune_removes_both_duplicates:
  assumes "i < length rects" and "j < length rects" and "i \<noteq> j" and "rects ! i = rects ! j"
  shows "rects ! i \<notin> set (prune_free_rects rects)"
proof
  assume mem: "rects ! i \<in> set (prune_free_rects rects)"
  from assms have len: "1 < length rects" by (cases rects; cases "tl rects") auto
  from mem obtain k where k: "k < length rects" "rects ! k = rects ! i"
    and nc: "\<not> (\<exists>m < length rects. k \<noteq> m \<and> contains (rects ! m) (rects ! k))"
    unfolding set_prune [OF len] by force
  show False
  proof (cases "k = i")
    case True
    with nc assms have "\<not> contains (rects ! j) (rects ! i)" by auto
    with assms show False by (simp add: contains_refl)
  next
    case False
    with nc assms k have "\<not> contains (rects ! i) (rects ! k)" by auto
    with k show False by (simp add: contains_refl)
  qed
qed

theorem prune_removes_both_duplicates_witness:
  "FreeRectangle 0 0 10 10 \<notin> set (prune_free_rects [FreeRectangle 0 0 10 10, FreeRectangle 0 0 10 10])
   \<and> prune_free_rects [FreeRectangle 0 0 10 10, FreeRectangle 0 0 10 10] = []"
  using prune_removes_both_duplicates [of 0 "[FreeRectangle 0 0 10 10, FreeRectangle 0 0 10 10]" 1]
  by (simp add: prune_free_rects_def enumerate_eq_zip contains_def FreeRectangle_def)

lemma update_skyline_take:
  "update_skyline x y w h sky = take 100 (skyline_sorted_update x y w h sky)"
  by (simp add: update_skyline_def Let_def)

lemma skyline_sorted_update_sorted:
  "sorted (map skyline_key (skyline_sorted_update x y w h sky))"
  by (simp add: skyline_sorted_update_def split: prod.splits)

lemma sorted_take_drop_le:
  assumes "sorted (map f xs)" and "a \<in> set (take n xs)" and "b \<in> set (drop n xs)"
  shows "f a \<le> f b"
proof -
  from assms(1) have "sorted (map f (take n xs) @ map f (drop n xs))"
    by (simp flip: map_append)
  with assms(2,3) show ?thesis
    by (auto simp: sorted_append)
qed

text \<open>
  C8 (as amended).  After every call of \<open>_update_skyline\<close> the skyline is sorted by
  \<open>(y, x)\<close> ascending and has at most 100 segments.  When the update would exceed
  the cap, the result is the first 100 segments in that order: every dropped segment
  has a key at least as large as every kept one.  Age plays no part.
\<close>

theorem update_skyline_sorted_capped:
  "sorted (map skyline_key (update_skyline x y w h sky))
   \<and> length (update_skyline x y w h sky) \<le> 100
   \<and> update_skyline x y w h sky = take 100 (skyline_sorted_update x y w h sky)
   \<and> (\<forall>a \<in> set (update_skyline x y w h sky).
        \<forall>b \<in> set (drop 100 (skyline_sorted_update x y w h sky)). skyline_key a \<le> skyline_key b)"
proof -
  have "sorted (map skyline_key (take 100 (skyline_sorted_update x y w h sky)))"
    using skyline_sorted_update_sorted [of x y w h sky]
    by (simp add: take_map [symmetric] del: take_map)
  then show ?thesis
    using sorted_take_drop_le [OF skyline_sorted_update_sorted [of x y w h sky]]
    by (auto simp: update_skyline_take)
qed


lemma skyline_loop_disjoint:
  assumes "\<forall>s \<in> set sky. \<not> (x < fst s + snd (snd s) \<and> x + w > fst s)"
  shows "skyline_loop x w sky new merged updated = (updated @ sky, new)"
  using assms
proof (induction sky arbitrary: updated)
  case Nil
  show ?case by simp
next
  case (Cons s sky)
  obtain sx sy sw where s: "s = (sx, sy, sw)" by (cases s)
  obtain n0 n1 n2 where n: "new = (n0, n1, n2)" by (cases new)
  from Cons.prems have "\<not> (x < sx + sw \<and> x + w > sx)" by (simp add: s)
  moreover have "skyline_loop x w sky new merged (updated @ [s]) = ((updated @ [s]) @ sky, new)"
    using Cons.prems by (intro Cons.IH) simp
  ultimately show ?case by (auto simp: s n)
qed

lemma sorted_strips: "sorted (map skyline_key (map strip_segment [0..<n]))"
  by (simp add: sorted_iff_nth_mono skyline_key_def strip_segment_def less_eq_prod_def)

lemma strip_step:
  assumes "0 < n"
  shows "skyline_sorted_update (2 * real n) 0 1 (real n + 1) (map strip_segment [0..<n])
       = map strip_segment [0..<n] @ [strip_segment n]"
proof -
  have "\<forall>s \<in> set (map strip_segment [0..<n]). \<not> (2 * real n < fst s + snd (snd s) \<and> 2 * real n + 1 > fst s)"
    by (auto simp: strip_segment_def)
  then have "skyline_loop (2 * real n) 1 (map strip_segment [0..<n]) (2 * real n, 0 + (real n + 1), 1) False []
      = ([] @ map strip_segment [0..<n], (2 * real n, 0 + (real n + 1), 1))"
    by (rule skyline_loop_disjoint)
  moreover have "sort_key skyline_key (map strip_segment [0..<Suc n]) = map strip_segment [0..<Suc n]"
    by (rule sort_key_id_if_sorted) (rule sorted_strips)
  ultimately show ?thesis
    by (simp add: skyline_sorted_update_def) (simp add: strip_segment_def)
qed

lemma strip_skyline_eq:
  "0 < n \<Longrightarrow> n \<le> 100 \<Longrightarrow> strip_skyline n = map strip_segment [0..<n]"
proof (induction n)
  case 0
  then show ?case by simp
next
  case (Suc n)
  show ?case
  proof (cases "n = 0")
    case True
    then show ?thesis
      by (simp add: strip_skyline_def update_skyline_def skyline_sorted_update_def strip_segment_def)
  next
    case False
    with Suc have "strip_skyline n = map strip_segment [0..<n]" by simp
    then have "strip_skyline (Suc n) = update_skyline (2 * real n) 0 1 (real n + 1) (map strip_segment [0..<n])"
      by (simp add: strip_skyline_def)
    also have "\<dots> = map strip_segment [0..<Suc n]"
      using False Suc.prems strip_step [of n]
      by (simp add: update_skyline_def Let_def)
    finally show ?thesis .
  qed
qed

lemma strip_skyline_cap:
  "length (strip_skyline 100) = 100
   \<and> skyline_sorted_update 200 0 1 101 (strip_skyline 100) = strip_skyline 100 @ [(200, 101, 1)]
   \<and> update_skyline 200 0 1 101 (strip_skyline 100) = strip_skyline 100
   \<and> (0, 1, 1) \<in> set (update_skyline 200 0 1 101 (strip_skyline 100))
   \<and> (200, 101, 1) \<notin> set (update_skyline 200 0 1 101 (strip_skyline 100))"
proof -
  have eq: "strip_skyline 100 = map strip_segment [0..<100]"
    by (rule strip_skyline_eq) simp_all
  have full: "skyline_sorted_update 200 0 1 101 (strip_skyline 100) = strip_skyline 100 @ [(200, 101, 1)]"
  proof -
    have "skyline_sorted_update (2 * real 100) 0 1 (real 100 + 1) (map strip_segment [0..<100])
        = map strip_segment [0..<100] @ [strip_segment 100]"
      by (rule strip_step) simp
    then show ?thesis by (simp add: eq strip_segment_def)
  qed
  have upd: "update_skyline 200 0 1 101 (strip_skyline 100) = strip_skyline 100"
    by (simp add: update_skyline_take full) (simp add: eq)
  have "(0, 1, 1) \<in> set (strip_skyline 100)"
    unfolding eq by (auto simp: strip_segment_def image_iff intro!: bexI [of _ 0])
  moreover have "(200, 101, 1) \<notin> set (strip_skyline 100)"
    unfolding eq by (auto simp: strip_segment_def)
  ultimately show ?thesis
    using full upd by (simp add: eq)
qed

text \<open>
  C8 fails as stated: the cap does not drop the oldest segments.  After the 100 strip
  placements the skyline has 100 segments; the next placement (footprint
  \<open>1 \<times> 101\<close> at \<open>(200, 0)\<close>) creates the segment \<open>(200, 101, 1)\<close>, and it is this
  newest segment that is cut off, while the oldest one, \<open>(0, 1, 1)\<close>, stays.
\<close>

theorem skyline_cap_drops_newest:
  "length (strip_skyline 100) = 100
   \<and> (0, 1, 1) \<in> set (update_skyline 200 0 1 101 (strip_skyline 100))
   \<and> (200, 101, 1) \<notin> set (update_skyline 200 0 1 101 (strip_skyline 100))"
  using strip_skyline_cap by blast

theorem update_skyline_sorted_capped_witness:
  "sorted (map skyline_key (update_skyline 200 0 1 101 (strip_skyline 100)))
   \<and> length (update_skyline 200 0 1 101 (strip_skyline 100)) \<le> 100
   \<and> (0, 1, 1) \<in> set (update_skyline 200 0 1 101 (strip_skyline 100))
   \<and> (200, 101, 1) \<in> set (drop 100 (skyline_sorted_update 200 0 1 101 (strip_skyline 100)))
   \<and> skyline_key (0, 1, 1) \<le> skyline_key (200, 101, 1)"
proof -
  have a: "(0, 1, 1) \<in> set (update_skyline 200 0 1 101 (strip_skyline 100))"
    using strip_skyline_cap by blast
  have len: "length (strip_skyline 100) = 100"
    using strip_skyline_cap by blast
  have full: "skyline_sorted_update 200 0 1 101 (strip_skyline 100) = strip_skyline 100 @ [(200, 101, 1)]"
    using strip_skyline_cap by blast
  have b: "(200, 101, 1) \<in> set (drop 100 (skyline_sorted_update 200 0 1 101 (strip_skyline 100)))"
    by (simp add: full len)
  from update_skyline_sorted_capped [of 200 0 1 101 "strip_skyline 100"] a b
  show ?thesis by blast
qed

section \<open>Guillotine variant\<close>

lemma sort_panels_single: "sort_panels a [p] = [p]"
  by (simp add: sort_panels_def sorted_desc_def split: PanelSortStrategy.splits)

text \<open>
  C5.  With stock 240 by 120, kerf 5, horizontal sheet grain and the single panel
  54 by 40 (grain to match the sheet), \<open>nest\<close> places the panel at \<open>(0, 0)\<close> unrotated
  on sheet 0 and leaves exactly two sub-sheets: the one beside the panel, at
  \<open>x = 54 + 5\<close> with width \<open>240 - 54 - 5 = 181\<close>, and the one above it, at \<open>y = 40 + 5\<close>
  with height \<open>120 - 40 - 5 = 75\<close>.  This holds for every preferred cut orientation,
  sort strategy, rotation constraint, id and tag.
\<close>

theorem guillotine_scenario:
  "bs_placed_panels (nest (BeamSaw_init 240 120 GRAIN_HORIZONTAL 5 pc strat) [scenario_panel rc i t])
     = [\<lparr>pl_panel = scenario_panel rc i t, pl_x = 0, pl_y = 0, pl_width = 54, pl_height = 40,
         pl_rotation_degrees = 0, pl_final_grain_direction = ''Horizontal'', pl_sheet_index = 0\<rparr>]
   \<and> bs_remaining_sub_sheets (nest (BeamSaw_init 240 120 GRAIN_HORIZONTAL 5 pc strat) [scenario_panel rc i t])
     = [\<lparr>ss_x = 59, ss_y = 0, ss_width = 181, ss_height = 120, ss_level = 1,
         ss_parent_cut_id = 0, ss_sheet_index = 0\<rparr>,
        \<lparr>ss_x = 0, ss_y = 45, ss_width = 54, ss_height = 75, ss_level = 1,
         ss_parent_cut_id = 1, ss_sheet_index = 0\<rparr>]
   \<and> bs_warnings (nest (BeamSaw_init 240 120 GRAIN_HORIZONTAL 5 pc strat) [scenario_panel rc i t]) = []
   \<and> bs_current_sheet_index (nest (BeamSaw_init 240 120 GRAIN_HORIZONTAL 5 pc strat) [scenario_panel rc i t]) = 0"
  by (simp add: nest_def sort_panels_single BeamSaw_init_def add_new_sheet_def try_place_panel_def
      can_place_panel_in_sub_sheet_def can_fit_def validate_grain_direction_def scenario_panel_def
      place_panel_def perform_guillotine_cut_def cut_and_append_def Let_def)

lemma can_place_iff:
  "(can_place_panel_in_sub_sheet a p s r \<noteq> None)
     = (can_fit s (effective_width p r) (effective_height p r) \<and> spec_grain_ok (bs_sheet_grain a) p r)"
  by (cases "bs_sheet_grain a"; cases r)
     (auto simp: can_place_panel_in_sub_sheet_def validate_grain_direction_def spec_grain_ok_def
      effective_width_def effective_height_def Let_def
      split: PanelGrainDirection.splits option.splits)

lemma can_place_rotated: "can_place_panel_in_sub_sheet a p s r = Some pl \<Longrightarrow> pm_rotated pl = r"
  by (auto simp: can_place_panel_in_sub_sheet_def Let_def split: if_splits option.splits)

text \<open>
  C6.  A placement of panel \<open>p\<close> on sub-sheet \<open>s\<close> in orientation \<open>r\<close> is accepted
  exactly when the panel fits geometrically and its effective orientation satisfies
  the grain constraint; so a violated constraint rejects the placement even when the
  panel fits.  On each sub-sheet the unrotated orientation is tried first: if it is
  accepted the panel is placed unrotated, and the rotated orientation is used only
  when the unrotated one was rejected and rotation is allowed.
\<close>

theorem grain_gating:
  "(can_place_panel_in_sub_sheet a p s r \<noteq> None)
     = (can_fit s (effective_width p r) (effective_height p r) \<and> spec_grain_ok (bs_sheet_grain a) p r)
   \<and> (can_place_panel_in_sub_sheet a p s False = Some pl \<longrightarrow>
        try_place_loop a p (s # rest) = (place_panel a p s pl, True) \<and> \<not> pm_rotated pl)
   \<and> (can_place_panel_in_sub_sheet a p s False = None \<longrightarrow>
        can_place_panel_in_sub_sheet a p s True = Some pl \<longrightarrow>
        bp_rotation_constraint p = ROTATION_90_ALLOWED \<longrightarrow>
        try_place_loop a p (s # rest) = (place_panel a p s pl, True) \<and> pm_rotated pl)"
  using can_place_iff [of a p s r] can_place_rotated [of a p s _ pl]
  by auto

theorem grain_gating_witness:
  "can_fit stock_sub_sheet (effective_width upright_panel False) (effective_height upright_panel False)
   \<and> \<not> spec_grain_ok GRAIN_HORIZONTAL upright_panel False
   \<and> can_place_panel_in_sub_sheet
        (BeamSaw_init 240 120 GRAIN_HORIZONTAL 5 CUT_HORIZONTAL AREA_DESCENDING)
        upright_panel stock_sub_sheet False = None
   \<and> try_place_loop (BeamSaw_init 240 120 GRAIN_HORIZONTAL 5 CUT_HORIZONTAL AREA_DESCENDING)
        upright_panel [stock_sub_sheet]
      = (place_panel (BeamSaw_init 240 120 GRAIN_HORIZONTAL 5 CUT_HORIZONTAL AREA_DESCENDING)
           upright_panel stock_sub_sheet
           \<lparr>pm_panel = upright_panel, pm_sub_sheet = stock_sub_sheet, pm_rotated = True,
            pm_width = 54, pm_height = 40, pm_final_grain_direction = ''Horizontal''\<rparr>, True)"
proof -
  let ?a = "BeamSaw_init 240 120 GRAIN_HORIZONTAL 5 CUT_HORIZONTAL AREA_DESCENDING"
  let ?pl = "\<lparr>pm_panel = upright_panel, pm_sub_sheet = stock_sub_sheet, pm_rotated = True,
            pm_width = 54, pm_height = 40, pm_final_grain_direction = ''Horizontal''\<rparr>"
  have fit: "can_fit stock_sub_sheet (effective_width upright_panel False)
      (effective_height upright_panel False)"
    by (simp add: can_fit_def stock_sub_sheet_def upright_panel_def effective_width_def
        effective_height_def)
  have bad: "\<not> spec_grain_ok GRAIN_HORIZONTAL upright_panel False"
    by (simp add: spec_grain_ok_def upright_panel_def effective_width_def effective_height_def)
  have grain: "bs_sheet_grain ?a = GRAIN_HORIZONTAL"
    by (simp add: BeamSaw_init_def)
  have rot: "can_place_panel_in_sub_sheet ?a upright_panel stock_sub_sheet True = Some ?pl"
    by (simp add: can_place_panel_in_sub_sheet_def validate_grain_direction_def can_fit_def
        BeamSaw_init_def upright_panel_def stock_sub_sheet_def)
  have allowed: "bp_rotation_constraint upright_panel = ROTATION_90_ALLOWED"
    by (simp add: upright_panel_def)
  from grain_gating [of ?a upright_panel stock_sub_sheet False ?pl "[]"] fit bad grain rot allowed
  show ?thesis by auto
qed

section \<open>The grid-scoped collision test\<close>



lemma get_grid_cells_Inr:
  assumes "sh_cell_w s \<noteq> 0" and "sh_cell_h s \<noteq> 0"
  shows "\<exists>cells. get_grid_cells s x y w h = Inr cells
    \<and> set cells = {(row, col).
         max 0 (min (sh_grid_rows s - 1) \<lfloor>y / sh_cell_h s\<rfloor>) \<le> row
       \<and> row \<le> max 0 (min (sh_grid_rows s - 1) \<lceil>(y + h) / sh_cell_h s\<rceil>)
       \<and> max 0 (min (sh_grid_cols s - 1) \<lfloor>x / sh_cell_w s\<rfloor>) \<le> col
       \<and> col \<le> max 0 (min (sh_grid_cols s - 1) \<lceil>(x + w) / sh_cell_w s\<rceil>)
       \<and> row < sh_grid_rows s \<and> col < sh_grid_cols s}"
  using assms by (auto simp: get_grid_cells_def Let_def)

lemma get_grid_cells_in_range:
  assumes "get_grid_cells s x y w h = Inr cells" and "(row, col) \<in> set cells"
  shows "0 \<le> row \<and> row < sh_grid_rows s \<and> 0 \<le> col \<and> col < sh_grid_cols s"
  using assms by (auto simp: get_grid_cells_def Let_def split: if_splits)








lemma set_register_cells:
  "set (register_cells g cells idx cell) = set (g cell) \<union> (if cell \<in> set cells then {idx} else {})"
  unfolding register_cells_def
  by (induction cells arbitrary: g) auto

lemma get_grid_cells_cong:
  assumes "sh_cell_w s' = sh_cell_w s" "sh_cell_h s' = sh_cell_h s"
    "sh_grid_cols s' = sh_grid_cols s" "sh_grid_rows s' = sh_grid_rows s"
  shows "get_grid_cells s' x y w h = get_grid_cells s x y w h"
  using assms by (simp add: get_grid_cells_def)

lemma place_with_fields:
  assumes "place_with s panel x y pw ph area = Inr s'"
  shows "sh_panels s' = sh_panels s @ [(panel, x, y)]"
    and "sh_cell_w s' = sh_cell_w s" and "sh_cell_h s' = sh_cell_h s"
    and "sh_grid_cols s' = sh_grid_cols s" and "sh_grid_rows s' = sh_grid_rows s"
    and "sh_w s' = sh_w s" and "sh_h s' = sh_h s"
    and "sh_filled_area s' = sh_filled_area s + area"
    and "\<exists>cells. get_grid_cells s x y pw ph = Inr cells
           \<and> sh_grid s' = register_cells (sh_grid s) cells (length (sh_panels s))"
  using assms by (auto simp: place_with_def Let_def split: sum.splits)

lemma place_with_Inr:
  assumes "sh_cell_w s \<noteq> 0" "sh_cell_h s \<noteq> 0"
  shows "\<exists>s'. place_with s panel x y pw ph area = Inr s'"
  using get_grid_cells_Inr [OF assms, of x y pw ph]
  by (auto simp: place_with_def Let_def)

lemma place_grid_inv:
  assumes inv: "grid_inv kerf s" and ok: "panel_ok kerf panel"
    and pl: "place kerf s panel x y = Inr s'"
  shows "grid_inv kerf s'"
proof -
  define pw where "pw = get_placed_width kerf panel"
  define ph where "ph = get_placed_height kerf panel"
  from pl have pw: "place_with s panel x y pw ph (pw * ph) = Inr s'"
    by (simp add: place_def Let_def pw_def ph_def)
  note f = place_with_fields [OF pw]
  from f(9) obtain cells where cells: "get_grid_cells s x y pw ph = Inr cells"
    and grid: "sh_grid s' = register_cells (sh_grid s) cells (length (sh_panels s))" by blast
  have gc: "\<And>x y w h. get_grid_cells s' x y w h = get_grid_cells s x y w h"
    by (rule get_grid_cells_cong) (simp_all add: f)
  from inv have sound: "\<forall>cell. \<forall>i \<in> set (sh_grid s cell). i < length (sh_panels s)"
    and reg: "\<And>i p px py cells. i < length (sh_panels s) \<Longrightarrow> sh_panels s ! i = (p, px, py) \<Longrightarrow>
            get_grid_cells s px py (get_placed_width kerf p) (get_placed_height kerf p) = Inr cells \<Longrightarrow>
            (\<forall>cell \<in> set cells. i \<in> set (sh_grid s cell))"
    and oks: "\<forall>t \<in> set (sh_panels s). panel_ok kerf (fst t)"
    and pos: "0 < sh_cell_w s" "0 < sh_cell_h s" "0 < sh_grid_cols s" "0 < sh_grid_rows s"
    unfolding grid_inv_def by blast+
  have 1: "\<forall>cell. \<forall>i \<in> set (sh_grid s' cell). i < length (sh_panels s')"
    using sound by (auto simp: grid set_register_cells f(1) less_Suc_eq split: if_splits)
  have 2: "\<forall>i < length (sh_panels s'). \<forall>p px py cells.
            sh_panels s' ! i = (p, px, py) \<longrightarrow>
            get_grid_cells s' px py (get_placed_width kerf p) (get_placed_height kerf p) = Inr cells \<longrightarrow>
            (\<forall>cell \<in> set cells. i \<in> set (sh_grid s' cell))"
  proof (intro allI impI ballI)
    fix i p px py cs cell
    assume i: "i < length (sh_panels s')" and t: "sh_panels s' ! i = (p, px, py)"
      and c: "get_grid_cells s' px py (get_placed_width kerf p) (get_placed_height kerf p) = Inr cs"
      and m: "cell \<in> set cs"
    show "i \<in> set (sh_grid s' cell)"
    proof (cases "i < length (sh_panels s)")
      case True
      with t have "sh_panels s ! i = (p, px, py)" by (simp add: f(1) nth_append)
      from reg [OF True this] c m have "i \<in> set (sh_grid s cell)" by (simp add: gc)
      then show ?thesis by (simp add: grid set_register_cells)
    next
      case False
      with i have ieq: "i = length (sh_panels s)" by (simp add: f(1))
      with t have "(p, px, py) = (panel, x, y)" by (simp add: f(1))
      with c cells have "cs = cells" by (simp add: gc pw_def ph_def)
      with m show ?thesis by (simp add: grid set_register_cells ieq)
    qed
  qed
  have 3: "\<forall>t \<in> set (sh_panels s'). panel_ok kerf (fst t)"
    using oks ok by (auto simp: f(1))
  from pos 1 2 3 show ?thesis
    unfolding grid_inv_def by (simp add: f)
qed

lemma py_int_nonneg: "0 \<le> r \<Longrightarrow> 0 \<le> py_int r"
  by (simp add: py_int_def)

lemma Sheet_config_grid_inv:
  assumes "0 < w" "0 < h" "0 < min_cells"
  shows "grid_inv kerf (Sheet_config tc min_cells max_cells w h tid avg)"
  using assms
  by (auto simp: grid_inv_def Sheet_config_def Let_def split: option.splits)

lemma Sheet_init_grid_inv:
  assumes "0 < w" "0 < h"
  shows "grid_inv kerf (Sheet_init w h tid avg)"
  unfolding Sheet_init_def by (rule Sheet_config_grid_inv) (use assms in auto)

lemma place_Inr:
  assumes "grid_inv kerf s"
  shows "\<exists>s'. place kerf s p x y = Inr s'"
  unfolding place_def Let_def
  by (rule place_with_Inr) (use assms in \<open>auto simp: grid_inv_def\<close>)

lemma place_all_run:
  assumes "grid_inv kerf s" and "\<forall>t \<in> set pls. panel_ok kerf (fst t)"
  shows "\<exists>s'. place_all kerf s pls = Inr s' \<and> grid_inv kerf s'
     \<and> sh_panels s' = sh_panels s @ pls \<and> sh_w s' = sh_w s \<and> sh_h s' = sh_h s"
  using assms
proof (induction pls arbitrary: s)
  case Nil
  then show ?case by simp
next
  case (Cons t pls)
  obtain p x y where t: "t = (p, x, y)" by (cases t)
  from place_Inr [OF Cons.prems(1)] obtain s1 where s1: "place kerf s p x y = Inr s1" by blast
  from Cons.prems have ok: "panel_ok kerf p" by (simp add: t)
  have inv1: "grid_inv kerf s1" by (rule place_grid_inv [OF Cons.prems(1) ok s1])
  from s1 have f: "sh_panels s1 = sh_panels s @ [(p, x, y)]" "sh_w s1 = sh_w s" "sh_h s1 = sh_h s"
    by (auto simp: place_def Let_def dest: place_with_fields)
  from Cons.IH [OF inv1] Cons.prems(2) obtain s' where
    "place_all kerf s1 pls = Inr s'" "grid_inv kerf s'" "sh_panels s' = sh_panels s1 @ pls"
    "sh_w s' = sh_w s1" "sh_h s' = sh_h s1" by auto
  then show ?case by (simp add: t s1 f)
qed













lemma place_fields:
  assumes "place kerf s p x y = Inr s'"
  shows "sh_panels s' = sh_panels s @ [(p, x, y)]" and "sh_w s' = sh_w s" and "sh_h s' = sh_h s"
    and "sh_filled_area s' = sh_filled_area s + get_placed_width kerf p * get_placed_height kerf p"
  using assms by (auto simp: place_def Let_def dest: place_with_fields)




lemma Sheet_init_fields:
  "sh_panels (Sheet_init w h tid avg) = []" "sh_w (Sheet_init w h tid avg) = w"
  "sh_h (Sheet_init w h tid avg) = h" "sh_filled_area (Sheet_init w h tid avg) = 0"
  by (simp_all add: Sheet_init_def Sheet_config_def split: option.splits prod.splits)









lemma wide_heights:
  "get_placed_height 0 wide_panel = 1" "get_placed_height 0 (rotate wide_panel) = 2097153 / 2097152"
  "get_placed_width 0 wide_panel = 2097153 / 2097152"
  by (simp_all add: get_placed_height_def get_placed_width_def wide_panel_def Panel_init_def rotate_def)


lemma unit_sheet_inv: "grid_inv 0 unit_sheet"
  unfolding unit_sheet_def by (rule Sheet_init_grid_inv) simp_all





section \<open>Footprints on a rectangular and on a shape-bearing sheet\<close>




















lemma pp_place_fields:
  assumes "pp_place kerf s p x y = Inr s'"
  shows "sh_panels s' = sh_panels s @ [(p, x, y)]" and "sh_w s' = sh_w s" and "sh_h s' = sh_h s"
    and "sh_filled_area s' = sh_filled_area s + pp_area p"
    and "sh_skyline s' = update_skyline x y (pp_get_placed_width kerf p) (pp_get_placed_height kerf p) (sh_skyline s)"
  using assms by (auto simp: pp_place_def place_with_def Let_def split: sum.splits)

lemma pp_place_sound:
  assumes "pp_sound s" and "pp_boundary_points p \<noteq> []"
  shows "\<exists>s'. pp_place kerf s p x y = Inr s' \<and> pp_sound s'"
proof -
  from assms(1) have nz: "sh_cell_w s \<noteq> 0" "sh_cell_h s \<noteq> 0"
    and sound: "\<forall>cell. \<forall>i \<in> set (sh_grid s cell). i < length (sh_panels s)"
    and pts: "\<forall>t \<in> set (sh_panels s). pp_boundary_points (fst t) \<noteq> []"
    unfolding pp_sound_def by blast+
  from place_with_Inr [OF nz] obtain s' where
    pl: "place_with s p x y (pp_get_placed_width kerf p) (pp_get_placed_height kerf p) (pp_area p) = Inr s'"
    by blast
  note f = place_with_fields [OF pl]
  from f(9) obtain cells where
    grid: "sh_grid s' = register_cells (sh_grid s) cells (length (sh_panels s))" by blast
  have "\<forall>cell. \<forall>i \<in> set (sh_grid s' cell). i < length (sh_panels s')"
    using sound by (auto simp: grid set_register_cells f(1) less_Suc_eq split: if_splits)
  moreover have "\<forall>t \<in> set (sh_panels s'). pp_boundary_points (fst t) \<noteq> []"
    using pts assms(2) by (auto simp: f(1))
  ultimately have "pp_sound s'"
    using nz by (simp add: pp_sound_def f)
  with pl show ?thesis by (simp add: pp_place_def Let_def)
qed




lemma planar_sheet_fields:
  "sh_w planar_sheet = 15" "sh_h planar_sheet = 12" "sh_panels planar_sheet = []"
  "sh_cell_w planar_sheet = 3" "sh_cell_h planar_sheet = 12 / 5"
  "sh_skyline planar_sheet = [(0, 0, 15)]"
  by (simp_all add: planar_sheet_def Sheet_init_def Sheet_config_def py_int_def)

lemma planar_sheet_sound: "pp_sound planar_sheet"
  by (simp add: pp_sound_def planar_sheet_fields)
     (simp add: planar_sheet_def Sheet_init_def Sheet_config_def Let_def split: prod.splits)

lemma scenario_panels:
  "pp_w corner_panel = 12" "pp_h corner_panel = 12"
  "pp_w strip_panel = 3" "pp_h strip_panel = 5"
  "pp_w square_panel = 4" "pp_h square_panel = 4"
  "pp_rotation_angle corner_panel = 0" "pp_rotation_angle strip_panel = 0"
  "pp_rotation_angle square_panel = 0"
  "\<not> pp_rotated corner_panel" "\<not> pp_rotated strip_panel" "\<not> pp_rotated square_panel"
  "pp_boundary_points corner_panel \<noteq> []" "pp_boundary_points strip_panel \<noteq> []"
  "pp_boundary_points square_panel \<noteq> []"
  by (simp_all add: corner_panel_def strip_panel_def square_panel_def PlanarPanel_init_def)







section \<open>Area conservation\<close>

lemma place_all_area:
  assumes "place_all kerf s pls = Inr s'"
    and "sh_filled_area s = sum_list (map (\<lambda>t. footprint_area (footprint kerf t)) (sh_panels s))"
  shows "sh_filled_area s' = sum_list (map (\<lambda>t. footprint_area (footprint kerf t)) (sh_panels s'))"
  using assms
proof (induction pls arbitrary: s)
  case Nil
  then show ?case by simp
next
  case (Cons t pls)
  obtain p x y where t: "t = (p, x, y)" by (cases t)
  from Cons.prems(1) obtain s1 where pl: "place kerf s p x y = Inr s1"
    and rest: "place_all kerf s1 pls = Inr s'"
    by (auto simp: t split: sum.splits)
  note f = place_fields [OF pl]
  have "sh_filled_area s1 = sum_list (map (\<lambda>t. footprint_area (footprint kerf t)) (sh_panels s1))"
    by (simp add: f Cons.prems(2) footprint_area_def footprint_def)
  from Cons.IH [OF rest this] show ?case .
qed

lemma pp_place_all_area:
  assumes "pp_place_all kerf s pls = Inr s'"
    and "sh_filled_area s = sum_list (map (\<lambda>t. pp_area (fst t)) (sh_panels s))"
  shows "sh_filled_area s' = sum_list (map (\<lambda>t. pp_area (fst t)) (sh_panels s'))"
  using assms
proof (induction pls arbitrary: s)
  case Nil
  then show ?case by simp
next
  case (Cons t pls)
  obtain p x y where t: "t = (p, x, y)" by (cases t)
  from Cons.prems(1) obtain s1 where pl: "pp_place kerf s p x y = Inr s1"
    and rest: "pp_place_all kerf s1 pls = Inr s'"
    by (auto simp: t split: sum.splits)
  note f = pp_place_fields [OF pl]
  have "sh_filled_area s1 = sum_list (map (\<lambda>t. pp_area (fst t)) (sh_panels s1))"
    by (simp add: f Cons.prems(2))
  from Cons.IH [OF rest this] show ?case .
qed

lemma place_all_panels:
  assumes "place_all kerf s pls = Inr s'"
  shows "sh_panels s' = sh_panels s @ pls"
  using assms
proof (induction pls arbitrary: s)
  case Nil
  then show ?case by simp
next
  case (Cons t pls)
  obtain p x y where t: "t = (p, x, y)" by (cases t)
  from Cons.prems obtain s1 where pl: "place kerf s p x y = Inr s1"
    and rest: "place_all kerf s1 pls = Inr s'"
    by (auto simp: t split: sum.splits)
  from Cons.IH [OF rest] place_fields(1) [OF pl] show ?case by (simp add: t)
qed

lemma pp_place_all_panels:
  assumes "pp_place_all kerf s pls = Inr s'"
  shows "sh_panels s' = sh_panels s @ pls"
  using assms
proof (induction pls arbitrary: s)
  case Nil
  then show ?case by simp
next
  case (Cons t pls)
  obtain p x y where t: "t = (p, x, y)" by (cases t)
  from Cons.prems obtain s1 where pl: "pp_place kerf s p x y = Inr s1"
    and rest: "pp_place_all kerf s1 pls = Inr s'"
    by (auto simp: t split: sum.splits)
  from Cons.IH [OF rest] pp_place_fields(1) [OF pl] show ?case by (simp add: t)
qed

text \<open>
  C3.  On a sheet reached by any run of \<open>place\<close> calls from a new sheet, the
  accumulator \<open>filled_area\<close> equals the sum over the placed panels of
  \<open>placed_width * placed_height\<close>; on a shape-bearing sheet it equals the sum of the
  panels' \<open>area\<close> attributes (the polygon area computed at construction).
\<close>

theorem filled_area_is_sum_of_footprints:
  "(place_all kerf (Sheet_init w h tid avg) pls = Inr s \<longrightarrow>
      sh_panels s = pls
      \<and> sh_filled_area s = sum_list (map (\<lambda>t. footprint_area (footprint kerf t)) pls))
   \<and> (pp_place_all kerf (Sheet_init w h tid avg) ppls = Inr s' \<longrightarrow>
      sh_panels s' = ppls
      \<and> sh_filled_area s' = sum_list (map (\<lambda>t. pp_area (fst t)) ppls))"
proof (intro conjI impI)
  assume r: "place_all kerf (Sheet_init w h tid avg) pls = Inr s"
  from place_all_panels [OF r] show ps: "sh_panels s = pls" by (simp add: Sheet_init_fields)
  have "sh_filled_area s = sum_list (map (\<lambda>t. footprint_area (footprint kerf t)) (sh_panels s))"
    by (rule place_all_area [OF r]) (simp add: Sheet_init_fields)
  then show "sh_filled_area s = sum_list (map (\<lambda>t. footprint_area (footprint kerf t)) pls)"
    by (simp add: ps)
next
  assume r: "pp_place_all kerf (Sheet_init w h tid avg) ppls = Inr s'"
  from pp_place_all_panels [OF r] show ps: "sh_panels s' = ppls" by (simp add: Sheet_init_fields)
  have "sh_filled_area s' = sum_list (map (\<lambda>t. pp_area (fst t)) (sh_panels s'))"
    by (rule pp_place_all_area [OF r]) (simp add: Sheet_init_fields)
  then show "sh_filled_area s' = sum_list (map (\<lambda>t. pp_area (fst t)) ppls)"
    by (simp add: ps)
qed

theorem filled_area_is_sum_of_footprints_witness:
  "(\<exists>s. place_all 0 (Sheet_init 1 1 0 (Some 1)) [(wide_panel, 0, 0), (wide_panel, 0, 0)] = Inr s
       \<and> sh_filled_area s = 2097153 / 1048576)
   \<and> (\<exists>s'. pp_place_all 0 (Sheet_init 15 12 0 (Some 10)) [(corner_panel, 0, 0), (square_panel, 0, 5)] = Inr s'
       \<and> sh_filled_area s' = 88)"
proof
  have "\<forall>t \<in> set [(wide_panel, 0, 0), (wide_panel, 0, 0)]. panel_ok 0 (fst t)"
    by (simp add: panel_ok_def wide_heights)
  from place_all_run [OF unit_sheet_inv this] obtain s where
    r: "place_all 0 (Sheet_init 1 1 0 (Some 1)) [(wide_panel, 0, 0), (wide_panel, 0, 0)] = Inr s"
    unfolding unit_sheet_def by blast
  from filled_area_is_sum_of_footprints [THEN conjunct1, rule_format, OF r]
  have "sh_filled_area s = 2097153 / 1048576"
    by (simp add: footprint_area_def footprint_def wide_heights)
  with r show "\<exists>s. place_all 0 (Sheet_init 1 1 0 (Some 1)) [(wide_panel, 0, 0), (wide_panel, 0, 0)] = Inr s
       \<and> sh_filled_area s = 2097153 / 1048576" by blast
next
  from pp_place_sound [OF planar_sheet_sound, of corner_panel 0 0 0] obtain s1 where
    1: "pp_place 0 planar_sheet corner_panel 0 0 = Inr s1" and s1: "pp_sound s1"
    by (auto simp: scenario_panels)
  from pp_place_sound [OF s1, of square_panel 0 0 5] obtain s2 where
    2: "pp_place 0 s1 square_panel 0 5 = Inr s2"
    by (auto simp: scenario_panels)
  have r: "pp_place_all 0 (Sheet_init 15 12 0 (Some 10)) [(corner_panel, 0, 0), (square_panel, 0, 5)] = Inr s2"
    using 1 2 by (simp add: planar_sheet_def)
  from filled_area_is_sum_of_footprints [THEN conjunct2, rule_format, OF r]
  have "sh_filled_area s2 = 88"
    by (simp add: corner_panel_def square_panel_def PlanarPanel_init_def)
  with r show "\<exists>s'. pp_place_all 0 (Sheet_init 15 12 0 (Some 10)) [(corner_panel, 0, 0), (square_panel, 0, 5)] = Inr s'
       \<and> sh_filled_area s' = 88" by blast
qed

section \<open>The nesting driver\<close>












end
